theory Spec2Isabelle
  imports Main
begin

section \<open>create-restful-swr: adapter, cacher and resource binding\<close>

text \<open>
  The package keeps an SWR cache consistent between a collection and its resources.
  The embedding follows the three source files that carry the behaviour:
  \<^item> \<^verbatim>\<open>adapter.ts\<close>: the interface ResourceAdapter, the building blocks
    defaultUpsert and defaultFilter, and the class DefaultRestAdapter;
  \<^item> \<^verbatim>\<open>ResourceCacher\<close>: the six operations that call the remote client and then
    push the result into the cache through \<^verbatim>\<open>mutate\<close>;
  \<^item> \<^verbatim>\<open>createRESTfulSWR\<close>: \<^verbatim>\<open>assertId\<close> and the api of the hook useSWRResource.

  An async function is a state transformer that returns either the rejection reason
  (\<open>Inl\<close>) or the resolved value (\<open>Inr\<close>) together with the new state; \<^verbatim>\<open>await\<close> is the
  sequencing of two such transformers that stops at the first rejection.
\<close>

subsection \<open>adapter.ts\<close>

text \<open>
  The interface ResourceAdapter has the members id, resourceKey, collectionKey, all,
  upsert and remove. defaultUpsert and defaultFilter take their adapter at the type
  \<^verbatim>\<open>ResourceAdapter<any, any, RT>\<close> and read nothing of it but \<^verbatim>\<open>id\<close>; the record is
  therefore declared in two steps, so that both building blocks accept every adapter
  (and the class below can hand them \<^verbatim>\<open>this\<close>). The member \<^verbatim>\<open>id\<close> is written \<open>id'\<close>, a
  parameter \<^verbatim>\<open>id\<close> is written \<open>ident\<close>.
  The argument of resourceKey is \<^verbatim>\<open>RT | string\<close>: \<open>Inl\<close> a resource, \<open>Inr\<close> a bare id.
  The optional argument of collectionKey is an option, \<open>None\<close> for \<^verbatim>\<open>undefined\<close>.
\<close>

record 'rt Identified =
  id' :: "'rt \<Rightarrow> string"

record ('lp, 'ct, 'rt, 'k) ResourceAdapter = "'rt Identified" +
  resourceKey :: "'rt + string \<Rightarrow> 'k"
  collectionKey :: "'lp option \<Rightarrow> 'k"
  all :: "'ct \<Rightarrow> 'rt list"
  upsert :: "'rt \<Rightarrow> 'ct \<Rightarrow> 'ct"
  remove :: "string \<Rightarrow> 'ct \<Rightarrow> 'ct"

text \<open>
  \<^verbatim>\<open>collection.map(r => ...)\<close> in defaultUpsert: the callback assigns the captured
  variable \<^verbatim>\<open>inserted\<close>, so the traversal threads it, left to right.
\<close>

fun upsert_map :: "('rt, 'm) Identified_scheme \<Rightarrow> 'rt \<Rightarrow> 'rt list \<Rightarrow> bool \<Rightarrow> 'rt list \<times> bool" where
  "upsert_map adapt resource [] inserted = ([], inserted)"
| "upsert_map adapt resource (r # rs) inserted =
     (let isElement = (id' adapt r = id' adapt resource) in
      if isElement
      then (case upsert_map adapt resource rs False of (updated, ins) \<Rightarrow> (resource # updated, ins))
      else (case upsert_map adapt resource rs inserted of (updated, ins) \<Rightarrow> (r # updated, ins)))"

text \<open>
  \<^verbatim>\<open>collection.filter(r => ...)\<close> in defaultFilter, with the captured variable
  \<^verbatim>\<open>removed\<close> threaded in the same way.
\<close>

fun filter_scan :: "('rt, 'm) Identified_scheme \<Rightarrow> string \<Rightarrow> 'rt list \<Rightarrow> bool \<Rightarrow> 'rt list \<times> bool" where
  "filter_scan adapt ident [] removed = ([], removed)"
| "filter_scan adapt ident (r # rs) removed =
     (let isElement = (id' adapt r = ident) in
      if isElement
      then filter_scan adapt ident rs True
      else (case filter_scan adapt ident rs removed of (kept, rem) \<Rightarrow> (r # kept, rem)))"

text \<open>The object \<^verbatim>\<open>{ inserted, result }\<close> that defaultUpsert returns.\<close>

record 'rt Upserted =
  inserted :: bool
  result :: "'rt list"

definition defaultUpsert :: "('rt, 'm) Identified_scheme \<Rightarrow> 'rt \<Rightarrow> 'rt list \<Rightarrow> 'rt Upserted" where
  "defaultUpsert adapt resource collection =
     (case upsert_map adapt resource collection True of
        (updated, ins) \<Rightarrow>
          \<lparr>inserted = ins,
           result = (if \<not> ins then updated else collection @ [resource])\<rparr>)"

text \<open>The object \<^verbatim>\<open>{ removed, result }\<close> that defaultFilter returns.\<close>

record 'rt Filtered =
  removed :: bool
  result :: "'rt list"

definition defaultFilter :: "('rt, 'm) Identified_scheme \<Rightarrow> string \<Rightarrow> 'rt list \<Rightarrow> 'rt Filtered" where
  "defaultFilter adapt ident collection =
     (case filter_scan adapt ident collection False of
        (kept, rem) \<Rightarrow> \<lparr>removed = rem, result = kept\<rparr>)"

text \<open>
  A key of the default adapter is a two-element array: the prefix and either an id, the
  list parameters, or \<^verbatim>\<open>undefined\<close> (collectionKey called without argument).
\<close>

datatype 'lp part = Text string | Params 'lp | Undefined

text \<open>
  The class DefaultRestAdapter, constructed from \<^verbatim>\<open>cacheKey\<close> and \<^verbatim>\<open>idKey\<close>. Its resources
  are objects with a string under every key of the type RK; \<open>get resource key\<close> stands
  for the property read \<^verbatim>\<open>resource[key]\<close>. Collections are arrays of resources.
  \<^verbatim>\<open>this\<close>, as handed to defaultUpsert and defaultFilter, is the adapter seen through its
  member \<^verbatim>\<open>id\<close>.
\<close>

definition DefaultRestAdapter ::
  "('rt \<Rightarrow> 'rk \<Rightarrow> string) \<Rightarrow> string \<Rightarrow> 'rk \<Rightarrow> ('lp, 'rt list, 'rt, 'lp part list) ResourceAdapter" where
  "DefaultRestAdapter get cacheKey idKey =
     (let this = \<lparr>id' = (\<lambda>resource. get resource idKey)\<rparr> in
      \<lparr>id' = id' this,
       resourceKey = (\<lambda>resource.
          [Text cacheKey, Text (case resource of Inr s \<Rightarrow> s | Inl r \<Rightarrow> id' this r)]),
       collectionKey = (\<lambda>params.
          [Text cacheKey, (case params of None \<Rightarrow> Undefined | Some p \<Rightarrow> Params p)]),
       all = (\<lambda>collection. collection),
       upsert = (\<lambda>resource collection. Upserted.result (defaultUpsert this resource collection)),
       remove = (\<lambda>ident collection. Filtered.result (defaultFilter this ident collection))\<rparr>)"

text \<open>
  The spec's wording of the default upsert, "scan current resources, replace first
  id-match, else append to the end", written down as it reads, to be compared with
  defaultUpsert.
\<close>

fun spec_replace_first :: "('rt \<Rightarrow> string) \<Rightarrow> 'rt \<Rightarrow> 'rt list \<Rightarrow> 'rt list" where
  "spec_replace_first f resource [] = [resource]"
| "spec_replace_first f resource (r # rs) =
     (if f r = f resource then resource # rs else r # spec_replace_first f resource rs)"

subsection \<open>Async functions\<close>

text \<open>
  A promise is rejected with any value; \<^verbatim>\<open>new Error(message)\<close> is one of them, written
  \<open>Error message\<close>, and \<open>Rejected e\<close> is any other.
\<close>

datatype 'e reason = Error string | Rejected 'e

type_synonym ('a, 'e, 's) async = "'s \<Rightarrow> ('e reason + 'a) \<times> 's"

definition resolve :: "'a \<Rightarrow> ('a, 'e, 's) async" where
  "resolve x s = (Inr x, s)"

definition reject :: "'e reason \<Rightarrow> ('a, 'e, 's) async" where
  "reject e s = (Inl e, s)"

definition await :: "('a, 'e, 's) async \<Rightarrow> ('a \<Rightarrow> ('b, 'e, 's) async) \<Rightarrow> ('b, 'e, 's) async" where
  "await p k s = (case p s of (Inl e, s') \<Rightarrow> (Inl e, s') | (Inr x, s') \<Rightarrow> k x s')"

subsection \<open>client.ts: the interface RestClient\<close>

text \<open>
  Each member is a remote round trip: it acts on the state of the remote side and
  resolves or rejects. \<open>'pp\<close> is the type \<^verbatim>\<open>Partial<UP>\<close>. \<open>'v\<close> is the type of what the
  promise of \<^verbatim>\<open>remove\<close> resolves with: it is declared \<^verbatim>\<open>Promise<void>\<close>, but the value is
  handed on to the caller as it is (the test suite resolves it with \<^verbatim>\<open>null\<close> and expects
  \<^verbatim>\<open>null\<close> back), so it is a value like any other.
\<close>

record ('rt, 'ct, 'lp, 'cp, 'up, 'pp, 'v, 'e, 'srv) RestClient =
  list :: "'lp option \<Rightarrow> ('ct, 'e, 'srv) async"
  create :: "'cp \<Rightarrow> ('rt, 'e, 'srv) async"
  view :: "string \<Rightarrow> ('rt, 'e, 'srv) async"
  update :: "string \<Rightarrow> 'up \<Rightarrow> ('rt, 'e, 'srv) async"
  partial :: "string \<Rightarrow> 'pp \<Rightarrow> ('rt, 'e, 'srv) async"
  remove :: "string \<Rightarrow> ('v, 'e, 'srv) async"

subsection \<open>The world a cacher acts on\<close>

text \<open>
  The state holds the remote side, the cache, and a log of each: the requests sent to
  the remote client and the calls of \<^verbatim>\<open>mutate\<close>, both in the order they were made.
  A cache entry is a collection, a resource or \<^verbatim>\<open>null\<close>; a key without entry reads
  \<^verbatim>\<open>undefined\<close>, which is \<open>None\<close>. The second argument of \<^verbatim>\<open>mutate\<close> is a value to store or
  a function of the previous value; the functions that the cacher passes are typed
  \<^verbatim>\<open>(collection: CT | undefined) => ...\<close>.
\<close>

datatype ('lp, 'cp, 'up, 'pp) request =
    ListRequest "'lp option"
  | CreateRequest 'cp
  | ViewRequest string
  | UpdateRequest string 'up
  | PartialRequest string 'pp
  | RemoveRequest string

datatype ('ct, 'rt) entry = Collection 'ct | Resource 'rt | Null

datatype ('ct, 'rt) data = Data "('ct, 'rt) entry" | Updater "'ct option \<Rightarrow> 'ct option"

record MutatorOptions =
  revalidate :: bool

record ('srv, 'lp, 'cp, 'up, 'pp, 'k, 'ct, 'rt) world =
  remote :: 'srv
  requests :: "('lp, 'cp, 'up, 'pp) request list"
  cache :: "'k \<Rightarrow> ('ct, 'rt) entry option"
  writes :: "('k \<times> ('ct, 'rt) data \<times> MutatorOptions) list"

type_synonym ('srv, 'lp, 'cp, 'up, 'pp, 'k, 'ct, 'rt, 'e) ScopedMutator =
  "'k \<Rightarrow> ('ct, 'rt) data \<Rightarrow> MutatorOptions \<Rightarrow>
     (unit, 'e, ('srv, 'lp, 'cp, 'up, 'pp, 'k, 'ct, 'rt) world) async"

text \<open>A call of the remote client: the round trip itself, and its entry in the log.\<close>

definition remote_call ::
  "('a, 'e, 'srv) async \<Rightarrow> ('lp, 'cp, 'up, 'pp) request \<Rightarrow>
     ('a, 'e, ('srv, 'lp, 'cp, 'up, 'pp, 'k, 'ct, 'rt) world) async" where
  "remote_call round_trip req w =
     (case round_trip (remote w) of
        (outcome, srv) \<Rightarrow> (outcome, w\<lparr>remote := srv, requests := requests w @ [req]\<rparr>))"

text \<open>
  Modelled from the spec: the write handle into the external cache (SWR's scoped
  \<^verbatim>\<open>mutate\<close>, which the source only receives as a constructor argument). "A function
  that, given a key, either a literal value or an updater function of the previous
  value, and a flag suppressing auto-refetch, commits the new value." An updater is
  given the collection stored under the key, or \<^verbatim>\<open>undefined\<close> when the key has no entry,
  and what it returns is stored; an entry that is not a collection lies outside the
  updater's parameter type and is left as it is. The write never fails.
\<close>

definition commit :: "('ct, 'rt) data \<Rightarrow> ('ct, 'rt) entry option \<Rightarrow> ('ct, 'rt) entry option" where
  "commit d previous =
     (case d of
        Data v \<Rightarrow> Some v
      | Updater f \<Rightarrow>
          (case previous of
             None \<Rightarrow> map_option Collection (f None)
           | Some (Collection c) \<Rightarrow> map_option Collection (f (Some c))
           | Some v \<Rightarrow> Some v))"

text \<open>
  Modelled from the spec: the call \<^verbatim>\<open>mutate(key, data, options)\<close> itself. It commits the new
  value under the key, touches no other key, and resolves; the call is appended to the
  log with its options, of which the model keeps no other trace.
\<close>

definition cache_write :: "('srv, 'lp, 'cp, 'up, 'pp, 'k, 'ct, 'rt, 'e) ScopedMutator" where
  "cache_write key d options w =
     (Inr (), w\<lparr>cache := (cache w)(key := commit d (cache w key)),
                writes := writes w @ [(key, d, options)]\<rparr>)"

subsection \<open>The class ResourceCacher\<close>

record ('rt, 'ct, 'lp, 'cp, 'up, 'pp, 'v, 'e, 'srv, 'k) ResourceCacher =
  client :: "('rt, 'ct, 'lp, 'cp, 'up, 'pp, 'v, 'e, 'srv) RestClient"
  adapter :: "('lp, 'ct, 'rt, 'k) ResourceAdapter"
  mutate :: "('srv, 'lp, 'cp, 'up, 'pp, 'k, 'ct, 'rt, 'e) ScopedMutator"

text \<open>
  The loop \<^verbatim>\<open>for (const resource of this.adapter.all(collection))\<close> of listResources,
  over the array that \<^verbatim>\<open>all\<close> returned.
\<close>

fun for_resources ::
  "('rt, 'ct, 'lp, 'cp, 'up, 'pp, 'v, 'e, 'srv, 'k) ResourceCacher \<Rightarrow> 'rt list \<Rightarrow>
     (unit, 'e, ('srv, 'lp, 'cp, 'up, 'pp, 'k, 'ct, 'rt) world) async" where
  "for_resources this [] w = (Inr (), w)"
| "for_resources this (resource # rest) w =
     (case mutate this (resourceKey (adapter this) (Inl resource)) (Data (Resource resource))
             \<lparr>revalidate = False\<rparr> w of
        (Inl e, w') \<Rightarrow> (Inl e, w')
      | (Inr _, w') \<Rightarrow> for_resources this rest w')"

definition listResources ::
  "('rt, 'ct, 'lp, 'cp, 'up, 'pp, 'v, 'e, 'srv, 'k) ResourceCacher \<Rightarrow> 'lp option \<Rightarrow>
     ('ct, 'e, ('srv, 'lp, 'cp, 'up, 'pp, 'k, 'ct, 'rt) world) async" where
  "listResources this params =
     await (remote_call (RestClient.list (client this) params) (ListRequest params))
       (\<lambda>collection.
     await (mutate this (collectionKey (adapter this) params) (Data (Collection collection))
              \<lparr>revalidate = False\<rparr>)
       (\<lambda>_.
     await (for_resources this (all (adapter this) collection))
       (\<lambda>_.
     resolve collection)))"

text \<open>
  \<^verbatim>\<open>collection && f(collection)\<close> on an argument of type \<^verbatim>\<open>CT | undefined\<close>, where a
  collection is an array or an object and so never falsy: \<^verbatim>\<open>undefined\<close> is returned as
  it is, and \<open>f\<close> is applied to a collection.
\<close>

definition createResource ::
  "('rt, 'ct, 'lp, 'cp, 'up, 'pp, 'v, 'e, 'srv, 'k) ResourceCacher \<Rightarrow> 'cp \<Rightarrow>
     ('rt, 'e, ('srv, 'lp, 'cp, 'up, 'pp, 'k, 'ct, 'rt) world) async" where
  "createResource this params =
     await (remote_call (create (client this) params) (CreateRequest params))
       (\<lambda>resource.
     let key = resourceKey (adapter this) (Inl resource) in
     await (mutate this (collectionKey (adapter this) None)
              (Updater (\<lambda>collection. case collection of
                          None \<Rightarrow> None
                        | Some c \<Rightarrow> Some (upsert (adapter this) resource c)))
              \<lparr>revalidate = False\<rparr>)
       (\<lambda>_.
     await (mutate this key (Data (Resource resource)) \<lparr>revalidate = False\<rparr>)
       (\<lambda>_.
     resolve resource)))"

definition viewResource ::
  "('rt, 'ct, 'lp, 'cp, 'up, 'pp, 'v, 'e, 'srv, 'k) ResourceCacher \<Rightarrow> string \<Rightarrow>
     ('rt, 'e, ('srv, 'lp, 'cp, 'up, 'pp, 'k, 'ct, 'rt) world) async" where
  "viewResource this ident =
     await (remote_call (view (client this) ident) (ViewRequest ident))
       (\<lambda>resource.
     await (mutate this (collectionKey (adapter this) None)
              (Updater (\<lambda>collection. case collection of
                          None \<Rightarrow> None
                        | Some c \<Rightarrow> Some (upsert (adapter this) resource c)))
              \<lparr>revalidate = False\<rparr>)
       (\<lambda>_.
     await (mutate this (resourceKey (adapter this) (Inl resource)) (Data (Resource resource))
              \<lparr>revalidate = False\<rparr>)
       (\<lambda>_.
     resolve resource)))"

definition updateResource ::
  "('rt, 'ct, 'lp, 'cp, 'up, 'pp, 'v, 'e, 'srv, 'k) ResourceCacher \<Rightarrow> string \<Rightarrow> 'up \<Rightarrow>
     ('rt, 'e, ('srv, 'lp, 'cp, 'up, 'pp, 'k, 'ct, 'rt) world) async" where
  "updateResource this ident params =
     await (remote_call (RestClient.update (client this) ident params) (UpdateRequest ident params))
       (\<lambda>resource.
     await (mutate this (collectionKey (adapter this) None)
              (Updater (\<lambda>collection. case collection of
                          None \<Rightarrow> None
                        | Some c \<Rightarrow> Some (upsert (adapter this) resource c)))
              \<lparr>revalidate = False\<rparr>)
       (\<lambda>_.
     await (mutate this (resourceKey (adapter this) (Inl resource)) (Data (Resource resource))
              \<lparr>revalidate = False\<rparr>)
       (\<lambda>_.
     resolve resource)))"

definition partialResource ::
  "('rt, 'ct, 'lp, 'cp, 'up, 'pp, 'v, 'e, 'srv, 'k) ResourceCacher \<Rightarrow> string \<Rightarrow> 'pp \<Rightarrow>
     ('rt, 'e, ('srv, 'lp, 'cp, 'up, 'pp, 'k, 'ct, 'rt) world) async" where
  "partialResource this ident params =
     await (remote_call (partial (client this) ident params) (PartialRequest ident params))
       (\<lambda>resource.
     await (mutate this (collectionKey (adapter this) None)
              (Updater (\<lambda>collection. case collection of
                          None \<Rightarrow> None
                        | Some c \<Rightarrow> Some (upsert (adapter this) resource c)))
              \<lparr>revalidate = False\<rparr>)
       (\<lambda>_.
     await (mutate this (resourceKey (adapter this) (Inl resource)) (Data (Resource resource))
              \<lparr>revalidate = False\<rparr>)
       (\<lambda>_.
     resolve resource)))"

definition removeResource ::
  "('rt, 'ct, 'lp, 'cp, 'up, 'pp, 'v, 'e, 'srv, 'k) ResourceCacher \<Rightarrow> string \<Rightarrow>
     ('v, 'e, ('srv, 'lp, 'cp, 'up, 'pp, 'k, 'ct, 'rt) world) async" where
  "removeResource this ident =
     await (remote_call (RestClient.remove (client this) ident) (RemoveRequest ident))
       (\<lambda>response.
     let key = resourceKey (adapter this) (Inr ident) in
     await (mutate this (collectionKey (adapter this) None)
              (Updater (\<lambda>collection. case collection of
                          None \<Rightarrow> None
                        | Some c \<Rightarrow> Some (ResourceAdapter.remove (adapter this) ident c)))
              \<lparr>revalidate = False\<rparr>)
       (\<lambda>_.
     await (mutate this key (Data Null) \<lparr>revalidate = False\<rparr>)
       (\<lambda>_.
     resolve response)))"

subsection \<open>createRESTfulSWR: the api of useSWRResource\<close>

text \<open>
  \<^verbatim>\<open>if (!id) throw new Error(`id is undefined`)\<close> on an argument of type
  \<^verbatim>\<open>string | undefined\<close>: \<^verbatim>\<open>undefined\<close> and the empty string are the falsy values. The
  function asserts \<^verbatim>\<open>id is string\<close>; the model returns the id it let through.
\<close>

definition assertId :: "string option \<Rightarrow> 'e reason + string" where
  "assertId ident =
     (case ident of
        None \<Rightarrow> Inl (Error ''id is undefined'')
      | Some s \<Rightarrow> if s = [] then Inl (Error ''id is undefined'') else Inr s)"

text \<open>
  The members view, update, partial and remove of the \<^verbatim>\<open>api\<close> object that
  \<^verbatim>\<open>useSWRResource(id)\<close> returns; \<open>cacher\<close> is its \<^verbatim>\<open>new ResourceCacher(client, adapter, mutate)\<close>.
  An exception thrown in an async arrow function rejects its promise.
\<close>

definition api_view ::
  "('rt, 'ct, 'lp, 'cp, 'up, 'pp, 'v, 'e, 'srv, 'k) ResourceCacher \<Rightarrow> string option \<Rightarrow>
     ('rt, 'e, ('srv, 'lp, 'cp, 'up, 'pp, 'k, 'ct, 'rt) world) async" where
  "api_view cacher ident =
     (case assertId ident of Inl e \<Rightarrow> reject e | Inr s \<Rightarrow> viewResource cacher s)"

definition api_update ::
  "('rt, 'ct, 'lp, 'cp, 'up, 'pp, 'v, 'e, 'srv, 'k) ResourceCacher \<Rightarrow> string option \<Rightarrow> 'up \<Rightarrow>
     ('rt, 'e, ('srv, 'lp, 'cp, 'up, 'pp, 'k, 'ct, 'rt) world) async" where
  "api_update cacher ident params =
     (case assertId ident of Inl e \<Rightarrow> reject e | Inr s \<Rightarrow> updateResource cacher s params)"

definition api_partial ::
  "('rt, 'ct, 'lp, 'cp, 'up, 'pp, 'v, 'e, 'srv, 'k) ResourceCacher \<Rightarrow> string option \<Rightarrow> 'pp \<Rightarrow>
     ('rt, 'e, ('srv, 'lp, 'cp, 'up, 'pp, 'k, 'ct, 'rt) world) async" where
  "api_partial cacher ident params =
     (case assertId ident of Inl e \<Rightarrow> reject e | Inr s \<Rightarrow> partialResource cacher s params)"

definition api_remove ::
  "('rt, 'ct, 'lp, 'cp, 'up, 'pp, 'v, 'e, 'srv, 'k) ResourceCacher \<Rightarrow> string option \<Rightarrow>
     ('v, 'e, ('srv, 'lp, 'cp, 'up, 'pp, 'k, 'ct, 'rt) world) async" where
  "api_remove cacher ident =
     (case assertId ident of Inl e \<Rightarrow> reject e | Inr s \<Rightarrow> removeResource cacher s)"

subsection \<open>The resources of the test suite\<close>

text \<open>
  The test suite "adapter for custom resource id" runs on resources
  \<^verbatim>\<open>{ ID: '1', mock: true }\<close> with the adapter \<^verbatim>\<open>new DefaultRestAdapter('/collection', 'ID')\<close>
  and list parameters \<^verbatim>\<open>{ some: 'param' }\<close>.
\<close>

type_synonym item_params = "(string \<times> string) list"

record item =
  ID :: string
  mock :: bool

datatype item_key = Key_ID

fun item_get :: "item \<Rightarrow> item_key \<Rightarrow> string" where
  "item_get r Key_ID = ID r"

definition item_adapter :: "(item_params, item list, item, item_params part list) ResourceAdapter" where
  "item_adapter = DefaultRestAdapter item_get ''/collection'' Key_ID"

subsection \<open>Mock clients and starting worlds\<close>

text \<open>
  Two clients in the manner of the test suite's jest mocks, on a remote side that
  counts the calls it received: one resolves every call, one rejects every call with
  \<^verbatim>\<open>new Error('Error from client')\<close>. Create and update parameters are the value of
  \<^verbatim>\<open>mock\<close>, and \<^verbatim>\<open>remove\<close> resolves with \<^verbatim>\<open>null\<close>, which is \<open>None\<close>; \<open>acknowledging_client\<close>
  is the resolving client whose \<^verbatim>\<open>remove\<close> resolves with the id it was given. The world \<open>empty_world\<close> has seen nothing yet; in \<open>listed_world\<close> the
  collection hook has fetched a list of one resource into the cache.
\<close>

definition resolving_client :: "(item, item list, item_params, bool, bool, bool, string option, unit, nat) RestClient" where
  "resolving_client =
     \<lparr>list = (\<lambda>params n. (Inr [\<lparr>ID = ''1'', mock = True\<rparr>, \<lparr>ID = ''2'', mock = True\<rparr>], Suc n)),
      create = (\<lambda>params n. (Inr \<lparr>ID = ''1'', mock = params\<rparr>, Suc n)),
      view = (\<lambda>ident n. (Inr \<lparr>ID = ident, mock = True\<rparr>, Suc n)),
      update = (\<lambda>ident params n. (Inr \<lparr>ID = ident, mock = params\<rparr>, Suc n)),
      partial = (\<lambda>ident params n. (Inr \<lparr>ID = ident, mock = params\<rparr>, Suc n)),
      remove = (\<lambda>ident n. (Inr None, Suc n))\<rparr>"

definition acknowledging_client ::
  "(item, item list, item_params, bool, bool, bool, string option, unit, nat) RestClient" where
  "acknowledging_client =
     resolving_client\<lparr>remove := (\<lambda>ident n. (Inr (Some ident), Suc n))\<rparr>"

definition rejecting_client :: "(item, item list, item_params, bool, bool, bool, string option, unit, nat) RestClient" where
  "rejecting_client =
     \<lparr>list = (\<lambda>params n. (Inl (Error ''Error from client''), Suc n)),
      create = (\<lambda>params n. (Inl (Error ''Error from client''), Suc n)),
      view = (\<lambda>ident n. (Inl (Error ''Error from client''), Suc n)),
      update = (\<lambda>ident params n. (Inl (Error ''Error from client''), Suc n)),
      partial = (\<lambda>ident params n. (Inl (Error ''Error from client''), Suc n)),
      remove = (\<lambda>ident n. (Inl (Error ''Error from client''), Suc n))\<rparr>"

definition empty_world ::
  "(nat, item_params, bool, bool, bool, item_params part list, item list, item) world" where
  "empty_world = \<lparr>remote = 0, requests = [], cache = (\<lambda>key. None), writes = []\<rparr>"

definition listed_world ::
  "(nat, item_params, bool, bool, bool, item_params part list, item list, item) world" where
  "listed_world =
     \<lparr>remote = 1, requests = [ListRequest None],
      cache = (\<lambda>key. None)([Text ''/collection'', Undefined] \<mapsto> Collection [\<lparr>ID = ''1'', mock = True\<rparr>]),
      writes = []\<rparr>"

definition item_cacher ::
  "(item, item list, item_params, bool, bool, bool, string option, unit, nat, item_params part list) ResourceCacher" where
  "item_cacher = \<lparr>client = resolving_client, adapter = item_adapter, mutate = cache_write\<rparr>"

definition rejected_cacher ::
  "(item, item list, item_params, bool, bool, bool, string option, unit, nat, item_params part list) ResourceCacher" where
  "rejected_cacher = \<lparr>client = rejecting_client, adapter = item_adapter, mutate = cache_write\<rparr>"

text \<open>
  What C4 says of an operation started in the world \<open>w\<close>: it rejects with \<open>e\<close>, the
  cache is as it was, and \<^verbatim>\<open>mutate\<close> was not called.
\<close>

definition rejects_without_write ::
  "('a, 'e, ('srv, 'lp, 'cp, 'up, 'pp, 'k, 'ct, 'rt) world) async \<Rightarrow>
     ('srv, 'lp, 'cp, 'up, 'pp, 'k, 'ct, 'rt) world \<Rightarrow> 'e reason \<Rightarrow> bool" where
  "rejects_without_write operation w e =
     (case operation w of
        (outcome, w') \<Rightarrow> outcome = Inl e \<and> cache w' = cache w \<and> writes w' = writes w)"

section \<open>Properties of the adapter\<close>

lemma upsert_map_eq:
  "upsert_map adapt resource collection ins =
     (map (\<lambda>r. if id' adapt r = id' adapt resource then resource else r) collection,
      ins \<and> (\<forall>r \<in> set collection. id' adapt r \<noteq> id' adapt resource))"
  by (induction collection arbitrary: ins) (auto simp: Let_def)

lemma filter_scan_eq:
  "filter_scan adapt i collection rem =
     (filter (\<lambda>r. id' adapt r \<noteq> i) collection,
      rem \<or> (\<exists>r \<in> set collection. id' adapt r = i))"
  by (induction collection arbitrary: rem) (auto simp: Let_def)

lemma defaultUpsert_eq:
  "defaultUpsert adapt r C =
     (if \<forall>x \<in> set C. id' adapt x \<noteq> id' adapt r
      then \<lparr>inserted = True, result = C @ [r]\<rparr>
      else \<lparr>inserted = False,
            result = map (\<lambda>x. if id' adapt x = id' adapt r then r else x) C\<rparr>)"
  by (simp add: defaultUpsert_def upsert_map_eq)

lemma defaultFilter_eq:
  "defaultFilter adapt i C =
     \<lparr>removed = (\<exists>x \<in> set C. id' adapt x = i),
      result = filter (\<lambda>x. id' adapt x \<noteq> i) C\<rparr>"
  by (simp add: defaultFilter_def filter_scan_eq)

lemma DefaultRestAdapter_id [simp]:
  "id' (DefaultRestAdapter get cacheKey idKey) r = get r idKey"
  by (simp add: DefaultRestAdapter_def Let_def)

lemma DefaultRestAdapter_all [simp]:
  "all (DefaultRestAdapter get cacheKey idKey) C = C"
  by (simp add: DefaultRestAdapter_def Let_def)

lemma DefaultRestAdapter_upsert_this:
  fixes D :: "('lp, 'rt list, 'rt, 'lp part list) ResourceAdapter"
  assumes "D = DefaultRestAdapter get cacheKey idKey"
  shows "upsert D r C = Upserted.result (defaultUpsert D r C)"
  by (simp add: assms DefaultRestAdapter_def Let_def defaultUpsert_eq)

lemma DefaultRestAdapter_remove_this:
  fixes D :: "('lp, 'rt list, 'rt, 'lp part list) ResourceAdapter"
  assumes "D = DefaultRestAdapter get cacheKey idKey"
  shows "ResourceAdapter.remove D i C = Filtered.result (defaultFilter D i C)"
  by (simp add: assms DefaultRestAdapter_def Let_def defaultFilter_eq)

lemma DefaultRestAdapter_upsert [simp]:
  "upsert (DefaultRestAdapter get cacheKey idKey) r C =
     (if \<forall>x \<in> set C. get x idKey \<noteq> get r idKey then C @ [r]
      else map (\<lambda>x. if get x idKey = get r idKey then r else x) C)"
  by (simp add: DefaultRestAdapter_def Let_def defaultUpsert_eq)

lemma DefaultRestAdapter_remove [simp]:
  "ResourceAdapter.remove (DefaultRestAdapter get cacheKey idKey) i C =
     filter (\<lambda>x. get x idKey \<noteq> i) C"
  by (simp add: DefaultRestAdapter_def Let_def defaultFilter_eq)

lemma DefaultRestAdapter_resourceKey [simp]:
  "resourceKey (DefaultRestAdapter get cacheKey idKey) x =
     [Text cacheKey, Text (case x of Inl r \<Rightarrow> get r idKey | Inr s \<Rightarrow> s)]"
  by (simp add: DefaultRestAdapter_def Let_def split: sum.split)

lemma DefaultRestAdapter_collectionKey [simp]:
  "collectionKey (DefaultRestAdapter get cacheKey idKey) params =
     [Text cacheKey, (case params of None \<Rightarrow> Undefined | Some p \<Rightarrow> Params p)]"
  by (simp add: DefaultRestAdapter_def Let_def)

lemma spec_replace_first_distinct:
  "distinct (map f C) \<Longrightarrow> \<exists>x \<in> set C. f x = f r \<Longrightarrow>
     spec_replace_first f r C = map (\<lambda>x. if f x = f r then r else x) C"
proof (induction C)
  case Nil
  then show ?case by simp
next
  case (Cons a C)
  show ?case
  proof (cases "f a = f r")
    case True
    with Cons.prems have "\<forall>x \<in> set C. f x \<noteq> f r" by (auto simp: image_iff)
    then have "map (\<lambda>x. if f x = f r then r else x) C = C"
      by (induction C) auto
    with True show ?thesis by simp
  next
    case False
    with Cons show ?thesis by auto
  qed
qed

text \<open>
  C6, as amended. When the id of the resource is present in the collection,
  defaultUpsert returns a collection of the same length in which every element with
  that id is replaced by the resource and every other element is unchanged, in order,
  and reports \<^verbatim>\<open>inserted = false\<close>. When the ids of the collection are pairwise distinct,
  this is the replacement of the first match that the spec describes. The same holds
  of \<^verbatim>\<open>all(upsert(r, C))\<close> for the DefaultRestAdapter.
\<close>

theorem upsert_existing:
  fixes adapt :: "('rt, 'm) Identified_scheme"
    and get :: "'rt \<Rightarrow> 'rk \<Rightarrow> string"
    and cacheKey :: string and idKey :: 'rk
  defines "D \<equiv> (DefaultRestAdapter get cacheKey idKey :: ('lp, 'rt list, 'rt, 'lp part list) ResourceAdapter)"
  shows "((\<exists>x \<in> set C. id' adapt x = id' adapt r) \<longrightarrow>
            defaultUpsert adapt r C =
              \<lparr>inserted = False,
               result = map (\<lambda>x. if id' adapt x = id' adapt r then r else x) C\<rparr>
          \<and> length (Upserted.result (defaultUpsert adapt r C)) = length C
          \<and> (distinct (map (id' adapt) C) \<longrightarrow>
               Upserted.result (defaultUpsert adapt r C) = spec_replace_first (id' adapt) r C))
       \<and> ((\<exists>x \<in> set (all D C). id' D x = id' D r) \<longrightarrow>
            all D (upsert D r C) = map (\<lambda>x. if id' D x = id' D r then r else x) (all D C)
          \<and> length (all D (upsert D r C)) = length (all D C))"
  unfolding D_def
  by (auto simp: defaultUpsert_eq spec_replace_first_distinct)

theorem upsert_existing_witness:
  "(\<exists>x \<in> set [\<lparr>ID = ''1'', mock = True\<rparr>, \<lparr>ID = ''2'', mock = True\<rparr>].
       id' item_adapter x = id' item_adapter \<lparr>ID = ''1'', mock = False\<rparr>)
   \<and> distinct (map (id' item_adapter) [\<lparr>ID = ''1'', mock = True\<rparr>, \<lparr>ID = ''2'', mock = True\<rparr>])
   \<and> defaultUpsert item_adapter \<lparr>ID = ''1'', mock = False\<rparr>
         [\<lparr>ID = ''1'', mock = True\<rparr>, \<lparr>ID = ''2'', mock = True\<rparr>] =
       \<lparr>inserted = False, result = [\<lparr>ID = ''1'', mock = False\<rparr>, \<lparr>ID = ''2'', mock = True\<rparr>]\<rparr>
   \<and> spec_replace_first (id' item_adapter) \<lparr>ID = ''1'', mock = False\<rparr>
         [\<lparr>ID = ''1'', mock = True\<rparr>, \<lparr>ID = ''2'', mock = True\<rparr>] =
       [\<lparr>ID = ''1'', mock = False\<rparr>, \<lparr>ID = ''2'', mock = True\<rparr>]
   \<and> all item_adapter (upsert item_adapter \<lparr>ID = ''1'', mock = False\<rparr>
         [\<lparr>ID = ''1'', mock = True\<rparr>, \<lparr>ID = ''2'', mock = True\<rparr>]) =
       [\<lparr>ID = ''1'', mock = False\<rparr>, \<lparr>ID = ''2'', mock = True\<rparr>]"
  using upsert_existing [where C = "[\<lparr>ID = ''1'', mock = True\<rparr>, \<lparr>ID = ''2'', mock = True\<rparr>]"
      and adapt = item_adapter and r = "\<lparr>ID = ''1'', mock = False\<rparr>"
      and get = item_get and idKey = Key_ID and cacheKey = "''/collection''"]
  by (simp add: item_adapter_def)

text \<open>
  C6, as stated, fails on a collection that holds an id twice: the first match is at
  index 0, and the element at index 1 does not stay unchanged.
\<close>

theorem upsert_first_only_counterexample:
  "id' item_adapter \<lparr>ID = ''1'', mock = True\<rparr> = id' item_adapter \<lparr>ID = ''1'', mock = False\<rparr>
   \<and> Upserted.result (defaultUpsert item_adapter \<lparr>ID = ''1'', mock = False\<rparr>
         [\<lparr>ID = ''1'', mock = True\<rparr>, \<lparr>ID = ''1'', mock = True\<rparr>]) =
       [\<lparr>ID = ''1'', mock = False\<rparr>, \<lparr>ID = ''1'', mock = False\<rparr>]
   \<and> spec_replace_first (id' item_adapter) \<lparr>ID = ''1'', mock = False\<rparr>
         [\<lparr>ID = ''1'', mock = True\<rparr>, \<lparr>ID = ''1'', mock = True\<rparr>] =
       [\<lparr>ID = ''1'', mock = False\<rparr>, \<lparr>ID = ''1'', mock = True\<rparr>]
   \<and> Upserted.result (defaultUpsert item_adapter \<lparr>ID = ''1'', mock = False\<rparr>
         [\<lparr>ID = ''1'', mock = True\<rparr>, \<lparr>ID = ''1'', mock = True\<rparr>]) ! 1 \<noteq>
       [\<lparr>ID = ''1'', mock = True\<rparr>, \<lparr>ID = ''1'', mock = True\<rparr>] ! 1
   \<and> all item_adapter (upsert item_adapter \<lparr>ID = ''1'', mock = False\<rparr>
         [\<lparr>ID = ''1'', mock = True\<rparr>, \<lparr>ID = ''1'', mock = True\<rparr>]) =
       [\<lparr>ID = ''1'', mock = False\<rparr>, \<lparr>ID = ''1'', mock = False\<rparr>]"
  by (simp add: item_adapter_def DefaultRestAdapter_def Let_def defaultUpsert_def)

text \<open>
  C7. When no element of the collection has the id of the resource, defaultUpsert
  returns the collection with the resource appended at the end and reports
  \<^verbatim>\<open>inserted = true\<close>; for the DefaultRestAdapter, \<^verbatim>\<open>all(upsert(r, C))\<close> is \<^verbatim>\<open>all(C)\<close> followed
  by \<open>r\<close>.
\<close>

theorem upsert_absent:
  fixes adapt :: "('rt, 'm) Identified_scheme"
    and get :: "'rt \<Rightarrow> 'rk \<Rightarrow> string"
    and cacheKey :: string and idKey :: 'rk
  defines "D \<equiv> (DefaultRestAdapter get cacheKey idKey :: ('lp, 'rt list, 'rt, 'lp part list) ResourceAdapter)"
  shows "((\<forall>x \<in> set C. id' adapt x \<noteq> id' adapt r) \<longrightarrow>
            defaultUpsert adapt r C = \<lparr>inserted = True, result = C @ [r]\<rparr>)
       \<and> ((\<forall>x \<in> set (all D C). id' D x \<noteq> id' D r) \<longrightarrow>
            all D (upsert D r C) = all D C @ [r])"
  unfolding D_def by (simp add: defaultUpsert_eq)

theorem upsert_absent_witness:
  "id' item_adapter \<lparr>ID = ''1'', mock = True\<rparr> \<noteq> id' item_adapter \<lparr>ID = ''2'', mock = False\<rparr>
   \<and> defaultUpsert item_adapter \<lparr>ID = ''2'', mock = False\<rparr> [\<lparr>ID = ''1'', mock = True\<rparr>] =
       \<lparr>inserted = True, result = [\<lparr>ID = ''1'', mock = True\<rparr>, \<lparr>ID = ''2'', mock = False\<rparr>]\<rparr>
   \<and> all item_adapter (upsert item_adapter \<lparr>ID = ''2'', mock = False\<rparr> [\<lparr>ID = ''1'', mock = True\<rparr>]) =
       [\<lparr>ID = ''1'', mock = True\<rparr>, \<lparr>ID = ''2'', mock = False\<rparr>]"
  using upsert_absent [where C = "[\<lparr>ID = ''1'', mock = True\<rparr>]"
      and adapt = item_adapter and r = "\<lparr>ID = ''2'', mock = False\<rparr>"
      and get = item_get and idKey = Key_ID and cacheKey = "''/collection''"]
  by (simp add: item_adapter_def)

text \<open>
  C8. When no element of the collection has the id \<open>i\<close>, defaultFilter returns the
  collection as it is, and so does \<^verbatim>\<open>remove(i, C)\<close> of the DefaultRestAdapter under \<^verbatim>\<open>all\<close>;
  defaultFilter reports \<^verbatim>\<open>removed = false\<close> exactly when no element has the id.
\<close>

theorem remove_absent:
  fixes adapt :: "('rt, 'm) Identified_scheme"
    and get :: "'rt \<Rightarrow> 'rk \<Rightarrow> string"
    and cacheKey :: string and idKey :: 'rk
  defines "D \<equiv> (DefaultRestAdapter get cacheKey idKey :: ('lp, 'rt list, 'rt, 'lp part list) ResourceAdapter)"
  shows "((\<forall>x \<in> set C. id' adapt x \<noteq> i) \<longrightarrow>
            Filtered.result (defaultFilter adapt i C) = C)
       \<and> (removed (defaultFilter adapt i C) = False) = (\<forall>x \<in> set C. id' adapt x \<noteq> i)
       \<and> ((\<forall>x \<in> set (all D C). id' D x \<noteq> i) \<longrightarrow>
            all D (ResourceAdapter.remove D i C) = all D C)"
  unfolding D_def by (simp add: defaultFilter_eq)

theorem remove_absent_witness:
  "id' item_adapter \<lparr>ID = ''1'', mock = True\<rparr> \<noteq> ''3''
   \<and> id' item_adapter \<lparr>ID = ''2'', mock = True\<rparr> \<noteq> ''3''
   \<and> defaultFilter item_adapter ''3'' [\<lparr>ID = ''1'', mock = True\<rparr>, \<lparr>ID = ''2'', mock = True\<rparr>] =
       \<lparr>removed = False, result = [\<lparr>ID = ''1'', mock = True\<rparr>, \<lparr>ID = ''2'', mock = True\<rparr>]\<rparr>
   \<and> defaultFilter item_adapter ''1'' [\<lparr>ID = ''1'', mock = True\<rparr>, \<lparr>ID = ''2'', mock = True\<rparr>] =
       \<lparr>removed = True, result = [\<lparr>ID = ''2'', mock = True\<rparr>]\<rparr>
   \<and> all item_adapter (ResourceAdapter.remove item_adapter ''3''
         [\<lparr>ID = ''1'', mock = True\<rparr>, \<lparr>ID = ''2'', mock = True\<rparr>]) =
       [\<lparr>ID = ''1'', mock = True\<rparr>, \<lparr>ID = ''2'', mock = True\<rparr>]"
  using remove_absent [where C = "[\<lparr>ID = ''1'', mock = True\<rparr>, \<lparr>ID = ''2'', mock = True\<rparr>]"
      and adapt = item_adapter and i = "''3''"
      and get = item_get and idKey = Key_ID and cacheKey = "''/collection''"]
    remove_absent [where C = "[\<lparr>ID = ''1'', mock = True\<rparr>, \<lparr>ID = ''2'', mock = True\<rparr>]"
      and adapt = item_adapter and i = "''1''"
      and get = item_get and idKey = Key_ID and cacheKey = "''/collection''"]
  by (simp add: item_adapter_def defaultFilter_def)

text \<open>
  C9. For the DefaultRestAdapter, the key of a resource and the key of its id are the
  same sequence.
\<close>

theorem resourceKey_of_id:
  fixes get :: "'rt \<Rightarrow> 'rk \<Rightarrow> string"
  shows "resourceKey (DefaultRestAdapter get cacheKey idKey :: ('lp, 'rt list, 'rt, 'lp part list) ResourceAdapter) (Inl r) =
     resourceKey (DefaultRestAdapter get cacheKey idKey :: ('lp, 'rt list, 'rt, 'lp part list) ResourceAdapter)
       (Inr (id' (DefaultRestAdapter get cacheKey idKey :: ('lp, 'rt list, 'rt, 'lp part list) ResourceAdapter) r))"
  by simp

theorem resourceKey_of_id_witness:
  "resourceKey item_adapter (Inl \<lparr>ID = ''1'', mock = True\<rparr>) = [Text ''/collection'', Text ''1'']
   \<and> resourceKey item_adapter (Inr (id' item_adapter \<lparr>ID = ''1'', mock = True\<rparr>)) = [Text ''/collection'', Text ''1'']"
  using resourceKey_of_id [where get = item_get and idKey = Key_ID and cacheKey = "''/collection''"
      and r = "\<lparr>ID = ''1'', mock = True\<rparr>"]
  by (simp add: item_adapter_def)

section \<open>Properties of the cacher and of the resource binding\<close>

lemma commit_Data [simp]: "commit (Data v) previous = Some v"
  by (simp add: commit_def)

lemma commit_Updater_None [simp]:
  "commit (Updater f) None = map_option Collection (f None)"
  by (simp add: commit_def)

lemma commit_Updater_Collection [simp]:
  "commit (Updater f) (Some (Collection c)) = map_option Collection (f (Some c))"
  by (simp add: commit_def)

lemma updater_map_option:
  "(\<lambda>collection. case collection of None \<Rightarrow> None | Some c \<Rightarrow> Some (f c)) = map_option f"
  by (rule ext) (simp split: option.split)

lemma for_resources_cache_write:
  assumes "mutate this = cache_write"
  shows "for_resources this rs w =
     (Inr (), w\<lparr>cache := foldl (\<lambda>m r. m(resourceKey (adapter this) (Inl r) \<mapsto> Resource r)) (cache w) rs,
                writes := writes w @ map (\<lambda>r. (resourceKey (adapter this) (Inl r), Data (Resource r),
                                               \<lparr>revalidate = False\<rparr>)) rs\<rparr>)"
  by (induction rs arbitrary: w) (simp_all add: assms cache_write_def)

text \<open>
  C1. For every \<open>params\<close>, when the remote \<^verbatim>\<open>list\<close> resolves with a collection,
  listResources resolves with that collection, and the calls of \<^verbatim>\<open>mutate\<close> it has made
  are, in this order: the collection under \<^verbatim>\<open>collectionKey(params)\<close>, then each resource
  of \<^verbatim>\<open>all(collection)\<close> under its own \<^verbatim>\<open>resourceKey\<close>, in the order of \<^verbatim>\<open>all\<close>, every
  call with \<^verbatim>\<open>revalidate: false\<close>. The cache is the old one with these values stored in
  that order.
\<close>

theorem listResources_resolved:
  assumes "RestClient.list cl params (remote w) = (Inr collection, srv)"
  shows "listResources \<lparr>client = cl, adapter = ad, mutate = cache_write\<rparr> params w =
     (Inr collection,
      w\<lparr>remote := srv,
        requests := requests w @ [ListRequest params],
        cache := foldl (\<lambda>m r. m(resourceKey ad (Inl r) \<mapsto> Resource r))
                   ((cache w)(collectionKey ad params \<mapsto> Collection collection))
                   (all ad collection),
        writes := writes w
                    @ (collectionKey ad params, Data (Collection collection), \<lparr>revalidate = False\<rparr>)
                    # map (\<lambda>r. (resourceKey ad (Inl r), Data (Resource r), \<lparr>revalidate = False\<rparr>))
                        (all ad collection)\<rparr>)"
  using assms
  by (simp add: listResources_def await_def remote_call_def resolve_def cache_write_def
      for_resources_cache_write)


theorem listResources_resolved_witness:
  "RestClient.list resolving_client None (remote empty_world) =
     (Inr [\<lparr>ID = ''1'', mock = True\<rparr>, \<lparr>ID = ''2'', mock = True\<rparr>], 1)
   \<and> fst (listResources item_cacher None empty_world) =
       Inr [\<lparr>ID = ''1'', mock = True\<rparr>, \<lparr>ID = ''2'', mock = True\<rparr>]
   \<and> writes (snd (listResources item_cacher None empty_world)) =
       [([Text ''/collection'', Undefined],
         Data (Collection [\<lparr>ID = ''1'', mock = True\<rparr>, \<lparr>ID = ''2'', mock = True\<rparr>]),
         \<lparr>revalidate = False\<rparr>),
        ([Text ''/collection'', Text ''1''], Data (Resource \<lparr>ID = ''1'', mock = True\<rparr>),
         \<lparr>revalidate = False\<rparr>),
        ([Text ''/collection'', Text ''2''], Data (Resource \<lparr>ID = ''2'', mock = True\<rparr>),
         \<lparr>revalidate = False\<rparr>)]
   \<and> cache (snd (listResources item_cacher None empty_world)) [Text ''/collection'', Undefined] =
       Some (Collection [\<lparr>ID = ''1'', mock = True\<rparr>, \<lparr>ID = ''2'', mock = True\<rparr>])
   \<and> cache (snd (listResources item_cacher None empty_world)) [Text ''/collection'', Text ''2''] =
       Some (Resource \<lparr>ID = ''2'', mock = True\<rparr>)"
proof -
  have resolved: "RestClient.list resolving_client None (remote empty_world) =
     (Inr [\<lparr>ID = ''1'', mock = True\<rparr>, \<lparr>ID = ''2'', mock = True\<rparr>], 1)"
    by (simp add: resolving_client_def empty_world_def)
  show ?thesis
    using resolved listResources_resolved [OF resolved, of item_adapter]
    by (simp add: item_cacher_def item_adapter_def empty_world_def)
qed

text \<open>
  C2. When the remote \<^verbatim>\<open>create\<close> resolves with a resource, createResource resolves with
  it after two calls of \<^verbatim>\<open>mutate\<close>: an updater under \<^verbatim>\<open>collectionKey()\<close> that applies
  \<^verbatim>\<open>upsert(resource, previous)\<close> to a previous collection and returns \<^verbatim>\<open>undefined\<close> for
  \<^verbatim>\<open>undefined\<close>, then the resource under its \<^verbatim>\<open>resourceKey\<close>. Afterwards the resource
  entry is set; a key that had no entry holds no collection; and, the two keys being
  different, the collection entry is still absent if it was absent and is the upserted
  collection if there was one.
\<close>

theorem createResource_resolved:
  assumes "create cl params (remote w) = (Inr resource, srv)"
  shows "\<exists>w'. createResource \<lparr>client = cl, adapter = ad, mutate = cache_write\<rparr> params w =
            (Inr resource, w')
     \<and> remote w' = srv
     \<and> requests w' = requests w @ [CreateRequest params]
     \<and> writes w' = writes w @
          [(collectionKey ad None, Updater (map_option (upsert ad resource)), \<lparr>revalidate = False\<rparr>),
           (resourceKey ad (Inl resource), Data (Resource resource), \<lparr>revalidate = False\<rparr>)]
     \<and> cache w' (resourceKey ad (Inl resource)) = Some (Resource resource)
     \<and> (cache w (collectionKey ad None) = None \<longrightarrow>
          (\<forall>c. cache w' (collectionKey ad None) \<noteq> Some (Collection c)))
     \<and> (collectionKey ad None \<noteq> resourceKey ad (Inl resource) \<longrightarrow>
          (cache w (collectionKey ad None) = None \<longrightarrow> cache w' (collectionKey ad None) = None)
        \<and> (\<forall>c. cache w (collectionKey ad None) = Some (Collection c) \<longrightarrow>
               cache w' (collectionKey ad None) = Some (Collection (upsert ad resource c))))
     \<and> (\<forall>key. key \<noteq> collectionKey ad None \<and> key \<noteq> resourceKey ad (Inl resource) \<longrightarrow>
          cache w' key = cache w key)"
  using assms
  by (simp add: createResource_def await_def remote_call_def resolve_def cache_write_def
      updater_map_option Let_def)

theorem createResource_resolved_witness:
  "create resolving_client False (remote empty_world) = (Inr \<lparr>ID = ''1'', mock = False\<rparr>, 1)
   \<and> cache empty_world (collectionKey item_adapter None) = None
   \<and> collectionKey item_adapter None \<noteq> resourceKey item_adapter (Inl \<lparr>ID = ''1'', mock = False\<rparr>)
   \<and> fst (createResource item_cacher False empty_world) = Inr \<lparr>ID = ''1'', mock = False\<rparr>
   \<and> cache (snd (createResource item_cacher False empty_world)) (collectionKey item_adapter None) = None
   \<and> cache (snd (createResource item_cacher False empty_world))
         (resourceKey item_adapter (Inl \<lparr>ID = ''1'', mock = False\<rparr>)) =
       Some (Resource \<lparr>ID = ''1'', mock = False\<rparr>)"
proof -
  have resolved: "create resolving_client False (remote empty_world) =
      (Inr \<lparr>ID = ''1'', mock = False\<rparr>, 1)"
    by (simp add: resolving_client_def empty_world_def)
  have absent: "cache empty_world (collectionKey item_adapter None) = None"
    by (simp add: empty_world_def)
  have keys: "collectionKey item_adapter None \<noteq> resourceKey item_adapter (Inl \<lparr>ID = ''1'', mock = False\<rparr>)"
    by (simp add: item_adapter_def)
  show ?thesis
    using resolved absent keys createResource_resolved [OF resolved, of item_adapter]
    by (auto simp: item_cacher_def)
qed


text \<open>
  C3. When the remote \<^verbatim>\<open>remove\<close> resolves with \<open>response\<close>, whatever value that is,
  removeResource resolves with the same \<open>response\<close> after two calls of \<^verbatim>\<open>mutate\<close>: an updater under \<^verbatim>\<open>collectionKey()\<close> that applies
  the adapter's \<^verbatim>\<open>remove(id, previous)\<close> to a previous collection and returns \<^verbatim>\<open>undefined\<close>
  for \<^verbatim>\<open>undefined\<close>, then \<^verbatim>\<open>null\<close> under \<^verbatim>\<open>resourceKey(id)\<close>. Afterwards the resource entry
  is \<^verbatim>\<open>null\<close>, an entry and not an absent one.
\<close>

theorem removeResource_resolved:
  assumes "RestClient.remove cl ident (remote w) = (Inr response, srv)"
  shows "\<exists>w'. removeResource \<lparr>client = cl, adapter = ad, mutate = cache_write\<rparr> ident w =
            (Inr response, w')
     \<and> remote w' = srv
     \<and> requests w' = requests w @ [RemoveRequest ident]
     \<and> writes w' = writes w @
          [(collectionKey ad None, Updater (map_option (ResourceAdapter.remove ad ident)),
            \<lparr>revalidate = False\<rparr>),
           (resourceKey ad (Inr ident), Data Null, \<lparr>revalidate = False\<rparr>)]
     \<and> cache w' (resourceKey ad (Inr ident)) = Some Null
     \<and> (collectionKey ad None \<noteq> resourceKey ad (Inr ident) \<longrightarrow>
          (cache w (collectionKey ad None) = None \<longrightarrow> cache w' (collectionKey ad None) = None)
        \<and> (\<forall>c. cache w (collectionKey ad None) = Some (Collection c) \<longrightarrow>
               cache w' (collectionKey ad None) =
                 Some (Collection (ResourceAdapter.remove ad ident c))))
     \<and> (\<forall>key. key \<noteq> collectionKey ad None \<and> key \<noteq> resourceKey ad (Inr ident) \<longrightarrow>
          cache w' key = cache w key)"
  using assms
  by (simp add: removeResource_def await_def remote_call_def resolve_def cache_write_def
      updater_map_option Let_def)

theorem removeResource_resolved_witness:
  "RestClient.remove resolving_client ''1'' (remote listed_world) = (Inr None, 2)
   \<and> RestClient.remove acknowledging_client ''1'' (remote listed_world) = (Inr (Some ''1''), 2)
   \<and> collectionKey item_adapter None \<noteq> resourceKey item_adapter (Inr ''1'')
   \<and> cache listed_world (collectionKey item_adapter None) =
       Some (Collection [\<lparr>ID = ''1'', mock = True\<rparr>])
   \<and> cache listed_world (resourceKey item_adapter (Inr ''1'')) = None
   \<and> fst (removeResource item_cacher ''1'' listed_world) = Inr None
   \<and> fst (removeResource (item_cacher\<lparr>client := acknowledging_client\<rparr>) ''1'' listed_world) =
       Inr (Some ''1'')
   \<and> cache (snd (removeResource item_cacher ''1'' listed_world)) (collectionKey item_adapter None) =
       Some (Collection [])
   \<and> cache (snd (removeResource item_cacher ''1'' listed_world)) (resourceKey item_adapter (Inr ''1'')) =
       Some Null"
proof -
  have resolved: "RestClient.remove resolving_client ''1'' (remote listed_world) = (Inr None, 2)"
    by (simp add: resolving_client_def listed_world_def)
  have acknowledged:
    "RestClient.remove acknowledging_client ''1'' (remote listed_world) = (Inr (Some ''1''), 2)"
    by (simp add: acknowledging_client_def listed_world_def)
  have keys: "collectionKey item_adapter None \<noteq> resourceKey item_adapter (Inr ''1'')"
    by (simp add: item_adapter_def)
  have listed: "cache listed_world (collectionKey item_adapter None) =
      Some (Collection [\<lparr>ID = ''1'', mock = True\<rparr>])"
    by (simp add: listed_world_def item_adapter_def)
  have unseen: "cache listed_world (resourceKey item_adapter (Inr ''1'')) = None"
    by (simp add: listed_world_def item_adapter_def)
  have removed: "ResourceAdapter.remove item_adapter ''1'' [\<lparr>ID = ''1'', mock = True\<rparr>] = []"
    by (simp add: item_adapter_def)
  show ?thesis
    using resolved acknowledged keys listed unseen removed
      removeResource_resolved [OF resolved, of item_adapter]
      removeResource_resolved [OF acknowledged, of item_adapter]
    by (auto simp: item_cacher_def)
qed

lemma rejected_remote_call:
  "round_trip (remote w) = (Inl e, srv) \<Longrightarrow>
     await (remote_call round_trip req) k w =
       (Inl e, w\<lparr>remote := srv, requests := requests w @ [req]\<rparr>)"
  by (simp add: await_def remote_call_def)

text \<open>
  C4. For each of the six operations and every \<^verbatim>\<open>mutate\<close>: if the remote call rejects
  with \<open>e\<close>, the operation rejects with the same \<open>e\<close>, \<^verbatim>\<open>mutate\<close> is not called and the
  cache is unchanged.
\<close>

theorem rejection_without_write:
  "(RestClient.list (client this) lparams (remote w) = (Inl e, srv) \<longrightarrow>
      rejects_without_write (listResources this lparams) w e)
   \<and> (create (client this) cparams (remote w) = (Inl e, srv) \<longrightarrow>
      rejects_without_write (createResource this cparams) w e)
   \<and> (view (client this) ident (remote w) = (Inl e, srv) \<longrightarrow>
      rejects_without_write (viewResource this ident) w e)
   \<and> (RestClient.update (client this) ident uparams (remote w) = (Inl e, srv) \<longrightarrow>
      rejects_without_write (updateResource this ident uparams) w e)
   \<and> (partial (client this) ident pparams (remote w) = (Inl e, srv) \<longrightarrow>
      rejects_without_write (partialResource this ident pparams) w e)
   \<and> (RestClient.remove (client this) ident (remote w) = (Inl e, srv) \<longrightarrow>
      rejects_without_write (removeResource this ident) w e)"
  by (simp add: rejects_without_write_def listResources_def createResource_def viewResource_def
      updateResource_def partialResource_def removeResource_def rejected_remote_call)

theorem rejection_without_write_witness:
  "RestClient.list (client rejected_cacher) None (remote listed_world) = (Inl (Error ''Error from client''), 2)
   \<and> create (client rejected_cacher) False (remote listed_world) = (Inl (Error ''Error from client''), 2)
   \<and> view (client rejected_cacher) ''1'' (remote listed_world) = (Inl (Error ''Error from client''), 2)
   \<and> RestClient.update (client rejected_cacher) ''1'' False (remote listed_world) = (Inl (Error ''Error from client''), 2)
   \<and> partial (client rejected_cacher) ''1'' False (remote listed_world) = (Inl (Error ''Error from client''), 2)
   \<and> RestClient.remove (client rejected_cacher) ''1'' (remote listed_world) = (Inl (Error ''Error from client''), 2)
   \<and> rejects_without_write (listResources rejected_cacher None) listed_world (Error ''Error from client'')
   \<and> rejects_without_write (createResource rejected_cacher False) listed_world (Error ''Error from client'')
   \<and> rejects_without_write (viewResource rejected_cacher ''1'') listed_world (Error ''Error from client'')
   \<and> rejects_without_write (updateResource rejected_cacher ''1'' False) listed_world (Error ''Error from client'')
   \<and> rejects_without_write (partialResource rejected_cacher ''1'' False) listed_world (Error ''Error from client'')
   \<and> rejects_without_write (removeResource rejected_cacher ''1'') listed_world (Error ''Error from client'')"
  using rejection_without_write [where this = rejected_cacher and w = listed_world
      and e = "Error ''Error from client''" and srv = 2 and lparams = None and cparams = False
      and ident = "''1''" and uparams = False and pparams = False]
  by (simp add: rejected_cacher_def rejecting_client_def listed_world_def)

text \<open>
  C5. With no bound id, view, update, partial and remove of the resource binding
  reject with \<^verbatim>\<open>Error('id is undefined')\<close> and leave the world as it was: no request has
  reached the remote client, and nothing was written.
\<close>

theorem api_without_id:
  "api_view cacher None w = (Inl (Error ''id is undefined''), w)
   \<and> api_update cacher None uparams w = (Inl (Error ''id is undefined''), w)
   \<and> api_partial cacher None pparams w = (Inl (Error ''id is undefined''), w)
   \<and> api_remove cacher None w = (Inl (Error ''id is undefined''), w)"
  by (simp add: api_view_def api_update_def api_partial_def api_remove_def assertId_def reject_def)

theorem api_without_id_witness:
  "api_view item_cacher None empty_world = (Inl (Error ''id is undefined''), empty_world)
   \<and> api_update item_cacher None False empty_world = (Inl (Error ''id is undefined''), empty_world)
   \<and> api_partial item_cacher None False empty_world = (Inl (Error ''id is undefined''), empty_world)
   \<and> api_remove item_cacher None empty_world = (Inl (Error ''id is undefined''), empty_world)
   \<and> requests (snd (api_view item_cacher None empty_world)) = []
   \<and> remote (snd (api_view item_cacher None empty_world)) = 0"
  using api_without_id [of item_cacher empty_world False False]
  by (simp add: empty_world_def)

text \<open>
  C10. assertId throws exactly for \<^verbatim>\<open>undefined\<close> and for the empty string. Bound to the
  empty string, view, update, partial and remove reject with \<^verbatim>\<open>Error('id is undefined')\<close>
  and leave the world as it was; bound to any other string they are the cacher's
  operations on that id.
\<close>

theorem api_with_empty_id:
  "((assertId ident = Inl (Error ''id is undefined'')) = (ident = None \<or> ident = Some []))
   \<and> api_view cacher (Some []) w = (Inl (Error ''id is undefined''), w)
   \<and> api_update cacher (Some []) uparams w = (Inl (Error ''id is undefined''), w)
   \<and> api_partial cacher (Some []) pparams w = (Inl (Error ''id is undefined''), w)
   \<and> api_remove cacher (Some []) w = (Inl (Error ''id is undefined''), w)
   \<and> (s \<noteq> [] \<longrightarrow>
        api_view cacher (Some s) w = viewResource cacher s w
      \<and> api_update cacher (Some s) uparams w = updateResource cacher s uparams w
      \<and> api_partial cacher (Some s) pparams w = partialResource cacher s pparams w
      \<and> api_remove cacher (Some s) w = removeResource cacher s w)"
  by (auto simp: api_view_def api_update_def api_partial_def api_remove_def assertId_def reject_def
      split: option.splits)

theorem api_with_empty_id_witness:
  "''1'' \<noteq> []
   \<and> api_view item_cacher (Some []) empty_world = (Inl (Error ''id is undefined''), empty_world)
   \<and> api_view item_cacher (Some ''1'') empty_world = viewResource item_cacher ''1'' empty_world
   \<and> requests (snd (api_view item_cacher (Some ''1'') empty_world)) = [ViewRequest ''1'']
   \<and> fst (api_view item_cacher (Some ''1'') empty_world) = Inr \<lparr>ID = ''1'', mock = True\<rparr>"
proof -
  note guarded = api_with_empty_id [where cacher = item_cacher and w = empty_world and s = "''1''"
      and uparams = False and pparams = False and ident = None]
  have nonempty: "''1'' \<noteq> []"
    by simp
  have empty: "api_view item_cacher (Some []) empty_world =
      (Inl (Error ''id is undefined''), empty_world)"
    using guarded by blast
  have passed: "api_view item_cacher (Some ''1'') empty_world =
      viewResource item_cacher ''1'' empty_world"
    using guarded nonempty by blast
  have viewed: "requests (snd (viewResource item_cacher ''1'' empty_world)) = [ViewRequest ''1'']
      \<and> fst (viewResource item_cacher ''1'' empty_world) = Inr \<lparr>ID = ''1'', mock = True\<rparr>"
    by (simp add: viewResource_def await_def remote_call_def resolve_def cache_write_def
        item_cacher_def resolving_client_def empty_world_def)
  show ?thesis
    using nonempty empty passed viewed by simp
qed

end
